theory Spec2Isabelle
  imports Main
begin

section \<open>The image router of quick-stickers (src/backend/routers/image.ts)\<close>

text \<open>
  The router keeps four closure variables (\<open>jobQueue\<close>, \<open>completedJobs\<close>,
  \<open>cancelledJobs\<close>, \<open>credits\<close>) and offers five HTTP handlers. Queueing a job
  registers a timer callback that later calls the generation adapter four times and
  then finalises the job. The handlers contain no \<open>await\<close>, so each of them runs
  atomically on the event loop; the callback is suspended once, at its
  \<open>await Promise.all\<close>, and is therefore modelled by two events (the timer fires, the
  four promises settle). Everything the program does not decide itself is an input of
  the model: the answers of the two external services, the rendering of
  \<open>Math.random()\<close> and the order of the events.

  Numbers: \<open>credits\<close> is a JavaScript number that only ever holds integers; it is
  modelled as \<open>int\<close>, which is exact below \<open>2^53\<close>.
\<close>

subsection \<open>Image results\<close>

text \<open>\<open>interface ImageResponse\<close>, lines 5-9. Both representations have the anonymous
  type \<open>{ width; height; url }\<close>, here the record \<open>rendition\<close>.\<close>

record rendition =
  width :: int
  height :: int
  url :: string

record ImageResponse =
  fullsize :: rendition
  thumbnail :: rendition
  label :: string

subsection \<open>The two external services\<close>

text \<open>The part of a generation response that the adapter reads. Every field the
  adapter tests for presence is optional, as in the declarations of the client library.\<close>

record inlineBlob =
  data :: "string option"

record part =
  inlineData :: "inlineBlob option"

record content =
  parts :: "part list option"

record candidate =
  candidateContent :: "content option"

record generateContentResponse =
  candidates :: "candidate list option"

text \<open>What one call of the adapter meets: \<open>generateContent\<close> maps the request text to
  the service's response (\<open>None\<close>: the call rejects), \<open>removeBackground\<close> maps the
  base64 image to the base64 of the processed image (\<open>None\<close>: something in the
  \<open>try\<close> block throws).\<close>

record services =
  generateContent :: "string \<Rightarrow> generateContentResponse option"
  removeBackground :: "string \<Rightarrow> string option"

datatype gen_error = ServiceRejected | NoCandidates | InvalidCandidate | NoImageGenerated

subsection \<open>generateGeminiImage, lines 35-104\<close>

definition stickerPrompt :: "string \<Rightarrow> string" where
  "stickerPrompt p =
     ''Create a fun, colorful, work-safe PNG sticker of: '' @ p @ ''.'' @ [CHR 0x0A] @
     ''  Only the subject should be visible with white background.'' @ [CHR 0x0A] @
     ''  Use vector art style, bold outlines, and no shadows.'' @ [CHR 0x0A] @
     ''  Return only a PNG image.''"

definition dataUrl :: "string \<Rightarrow> string" where
  "dataUrl base64 = ''data:image/png;base64,'' @ base64"

definition imageResult :: "string \<Rightarrow> string \<Rightarrow> ImageResponse" where
  "imageResult u p =
     \<lparr> fullsize = \<lparr> width = 1024, height = 1024, url = u \<rparr>,
       thumbnail = \<lparr> width = 512, height = 512, url = u \<rparr>,
       label = p \<rparr>"

text \<open>\<open>part.inlineData && part.inlineData.data\<close>: the payload when it is present and
  not the empty string.\<close>

definition inlinePayload :: "part \<Rightarrow> string option" where
  "inlinePayload pt =
     (case inlineData pt of
        None \<Rightarrow> None
      | Some b \<Rightarrow> (case data b of
                    None \<Rightarrow> None
                  | Some d \<Rightarrow> if d = [] then None else Some d))"

text \<open>The loop of lines 70-102. Both the \<open>try\<close> and the \<open>catch\<close> branch return, so
  the loop ends at the first part that carries a payload.\<close>

fun forParts :: "services \<Rightarrow> string \<Rightarrow> part list \<Rightarrow> gen_error + ImageResponse" where
  "forParts sv p [] = Inl NoImageGenerated"
| "forParts sv p (pt # pts) =
     (case inlinePayload pt of
        None \<Rightarrow> forParts sv p pts
      | Some imageData \<Rightarrow>
          (case removeBackground sv imageData of
             Some base64 \<Rightarrow> Inr (imageResult (dataUrl base64) p)
           | None \<Rightarrow> Inr (imageResult (dataUrl imageData) p)))"

definition generateGeminiImage :: "services \<Rightarrow> string \<Rightarrow> gen_error + ImageResponse" where
  "generateGeminiImage sv p =
     (case generateContent sv (stickerPrompt p) of
        None \<Rightarrow> Inl ServiceRejected
      | Some response \<Rightarrow>
          (case candidates response of
             None \<Rightarrow> Inl NoCandidates
           | Some [] \<Rightarrow> Inl NoCandidates
           | Some (cand # _) \<Rightarrow>
               (case candidateContent cand of
                  None \<Rightarrow> Inl InvalidCandidate
                | Some c \<Rightarrow>
                    (case parts c of
                       None \<Rightarrow> Inl InvalidCandidate
                     | Some pts \<Rightarrow> forParts sv p pts))))"


subsection \<open>The router's state\<close>

record job =
  jobId :: string
  prompt :: string
  timeoutId :: nat

text \<open>A registered callback: its handle and the two variables its closure captures.\<close>

record timer =
  handle :: nat
  forJob :: string
  forPrompt :: string

text \<open>The closure variables of \<open>createImageRouter\<close> (lines 21-29) and the event loop's
  view of the callbacks: \<open>timers\<close> are scheduled and have not fired, \<open>running\<close> have
  fired and wait for their four promises. An element of \<open>cancelledJobs\<close> is an object
  with the one field \<open>jobId\<close>, modelled by that string. \<open>completedJobs\<close> holds the own
  properties of the object.\<close>

record state =
  jobQueue :: "job list"
  completedJobs :: "string \<rightharpoonup> ImageResponse list"
  cancelledJobs :: "string list"
  credits :: int
  timers :: "timer list"
  running :: "timer list"
  nextHandle :: nat

definition CREDITS_IN_BUNDLE :: int where
  "CREDITS_IN_BUNDLE = 10"

definition initialState :: state where
  "initialState =
     \<lparr> jobQueue = [], completedJobs = Map.empty, cancelledJobs = [], credits = 10,
       timers = [], running = [], nextHandle = 0 \<rparr>"

subsection \<open>Array and object primitives\<close>

fun findIndex :: "('a \<Rightarrow> bool) \<Rightarrow> 'a list \<Rightarrow> nat option" where
  "findIndex P [] = None"
| "findIndex P (x # xs) =
     (if P x then Some 0 else (case findIndex P xs of None \<Rightarrow> None | Some i \<Rightarrow> Some (Suc i)))"

fun some :: "('a \<Rightarrow> bool) \<Rightarrow> 'a list \<Rightarrow> bool" where
  "some P [] = False"
| "some P (x # xs) = (P x \<or> some P xs)"

text \<open>\<open>xs.splice(index, 1)\<close>.\<close>

definition splice1 :: "nat \<Rightarrow> 'a list \<Rightarrow> 'a list" where
  "splice1 i xs = take i xs @ drop (Suc i) xs"

text \<open>\<open>s.substring(a, b)\<close> for \<open>a \<le> b\<close>.\<close>

definition substring :: "nat \<Rightarrow> nat \<Rightarrow> string \<Rightarrow> string" where
  "substring a b s = take (b - a) (drop a s)"

text \<open>\<open>completedJobs\<close> is created by the literal \<open>{}\<close>, so a property read that finds no
  own property continues in \<open>Object.prototype\<close>. These are the names defined there; each
  of them holds a function or an object.\<close>

definition objectPrototypeNames :: "string list" where
  "objectPrototypeNames =
     [''constructor'', ''hasOwnProperty'', ''isPrototypeOf'', ''propertyIsEnumerable'',
      ''toLocaleString'', ''toString'', ''valueOf'', ''__proto__'',
      ''__defineGetter__'', ''__defineSetter__'', ''__lookupGetter__'', ''__lookupSetter__'']"

datatype 'a property = Own 'a | Inherited string | Undefined

definition getProperty :: "(string \<rightharpoonup> 'a) \<Rightarrow> string \<Rightarrow> 'a property" where
  "getProperty obj k =
     (case obj k of
        Some v \<Rightarrow> Own v
      | None \<Rightarrow> if k \<in> set objectPrototypeNames then Inherited k else Undefined)"

text \<open>\<open>Promise.all\<close>: the array of the results when every promise fulfils, a rejection
  as soon as one rejects.\<close>

fun promiseAll :: "('e + 'a) list \<Rightarrow> 'e + 'a list" where
  "promiseAll [] = Inr []"
| "promiseAll (Inl e # rs) = Inl e"
| "promiseAll (Inr v # rs) = (case promiseAll rs of Inl e \<Rightarrow> Inl e | Inr vs \<Rightarrow> Inr (v # vs))"

text \<open>A query parameter has the type the handlers cast it to, \<open>string\<close>, or is missing.
  \<open>truthy\<close> gives its text when the parameter is truthy, and \<open>None\<close> when \<open>!x\<close> holds
  (missing, or the empty string).\<close>

fun truthy :: "string option \<Rightarrow> string option" where
  "truthy None = None"
| "truthy (Some v) = (if v = [] then None else Some v)"

subsection \<open>Timers\<close>

definition setTimeout :: "state \<Rightarrow> string \<Rightarrow> string \<Rightarrow> nat \<times> state" where
  "setTimeout s jid p =
     (nextHandle s,
      s\<lparr> timers := timers s @ [\<lparr> handle = nextHandle s, forJob = jid, forPrompt = p \<rparr>],
         nextHandle := nextHandle s + 1 \<rparr>)"

text \<open>\<open>clearTimeout\<close> removes a callback that has not fired and does nothing to one that
  has.\<close>

definition clearTimeout :: "state \<Rightarrow> nat \<Rightarrow> state" where
  "clearTimeout s h = s\<lparr> timers := filter (\<lambda>t. handle t \<noteq> h) (timers s) \<rparr>"

subsection \<open>Responses\<close>

datatype images_value = Stored "ImageResponse list" | PrototypeMember string

datatype body =
    CreditsBody int
  | JobIdBody string
  | StatusCompleted images_value int
  | StatusProcessing
  | StatusCancelled
  | Text string

type_synonym response = "nat \<times> body"

subsection \<open>The handlers\<close>

text \<open>Lines 106-110.\<close>

definition CREDITS :: "state \<Rightarrow> response \<times> state" where
  "CREDITS s = ((200, CreditsBody (credits s)), s)"

text \<open>Lines 112-117.\<close>

definition PURCHASE_CREDITS :: "state \<Rightarrow> response \<times> state" where
  "PURCHASE_CREDITS s =
     (let s' = s\<lparr> credits := credits s + CREDITS_IN_BUNDLE \<rparr>
      in ((200, CreditsBody (credits s')), s'))"

text \<open>Lines 196-198. The argument is \<open>Math.random().toString(36)\<close>: the text \<open>0\<close>, or
  \<open>0.\<close> followed by digits of base 36.\<close>

definition generateJobId :: "string \<Rightarrow> string" where
  "generateJobId rendering = substring 2 15 rendering"

text \<open>Lines 119-155, without the body of the callback: the balance is checked first, then
  the prompt; an accepted request draws the ID, registers the callback and appends the job.\<close>

definition QUEUE_IMAGE_GENERATION ::
  "state \<Rightarrow> string option \<Rightarrow> string \<Rightarrow> response \<times> state" where
  "QUEUE_IMAGE_GENERATION s query rendering =
     (if credits s \<le> 0 then
        ((403, Text ''Not enough credits required to generate images.''), s)
      else
        (case truthy query of
           None \<Rightarrow> ((400, Text ''Missing prompt parameter.''), s)
         | Some p \<Rightarrow>
             (let jid = generateJobId rendering;
                  (tid, s1) = setTimeout s jid p;
                  s2 = s1\<lparr> jobQueue := jobQueue s1 @ [\<lparr> jobId = jid, prompt = p, timeoutId = tid \<rparr>] \<rparr>
              in ((200, JobIdBody jid), s2))))"

text \<open>The callback of lines 133-151, from the moment its four promises have settled.
  A rejection is logged and changes nothing. The assignment \<open>completedJobs[jobId] = images\<close>
  creates or overwrites an own property for every text \<open>generateJobId\<close> can return (digits of
  base 36, so never \<open>__proto__\<close>).\<close>

definition timeoutCallback ::
  "services \<Rightarrow> services \<Rightarrow> services \<Rightarrow> services \<Rightarrow> string \<Rightarrow> string \<Rightarrow> state \<Rightarrow> state" where
  "timeoutCallback e1 e2 e3 e4 jid p s =
     (case promiseAll [generateGeminiImage e1 p, generateGeminiImage e2 p,
                       generateGeminiImage e3 p, generateGeminiImage e4 p] of
        Inl err \<Rightarrow> s
      | Inr images \<Rightarrow>
          (case findIndex (\<lambda>j. jobId j = jid) (jobQueue s) of
             None \<Rightarrow> s
           | Some index \<Rightarrow>
               s\<lparr> jobQueue := splice1 index (jobQueue s),
                  completedJobs := (completedJobs s)(jid \<mapsto> images),
                  credits := credits s - 1 \<rparr>))"

text \<open>Lines 157-178.\<close>

definition JOB_STATUS :: "state \<Rightarrow> string option \<Rightarrow> response \<times> state" where
  "JOB_STATUS s query =
     (case truthy query of
        None \<Rightarrow> ((400, Text ''Missing jobId parameter.''), s)
      | Some jid \<Rightarrow>
         (case getProperty (completedJobs s) jid of
            Own images \<Rightarrow> ((200, StatusCompleted (Stored images) (credits s)), s)
          | Inherited k \<Rightarrow> ((200, StatusCompleted (PrototypeMember k) (credits s)), s)
          | Undefined \<Rightarrow>
              if some (\<lambda>j. jobId j = jid) (jobQueue s) then ((200, StatusProcessing), s)
              else if some (\<lambda>c. c = jid) (cancelledJobs s) then ((200, StatusCancelled), s)
              else ((404, Text ''Job not found.''), s)))"

text \<open>Lines 180-194. A handle is an object, which is never falsy, so
  \<open>clearTimeout\<close> is always called.\<close>

definition CANCEL_JOB :: "state \<Rightarrow> string option \<Rightarrow> response \<times> state" where
  "CANCEL_JOB s query =
     (case truthy query of
        None \<Rightarrow> ((400, Text ''Missing jobId parameter.''), s)
      | Some jid \<Rightarrow>
         (case findIndex (\<lambda>j. jobId j = jid) (jobQueue s) of
            Some index \<Rightarrow>
              (let s1 = s\<lparr> cancelledJobs := cancelledJobs s @ [jid] \<rparr>;
                   tid = timeoutId (jobQueue s1 ! index);
                   s2 = s1\<lparr> jobQueue := splice1 index (jobQueue s1) \<rparr>;
                   s3 = clearTimeout s2 tid
               in ((200, Text ''Job successfully cancelled.''), s3))
          | None \<Rightarrow> ((404, Text ''Job not found.''), s)))"

subsection \<open>The event loop\<close>

datatype event =
    GetCredits
  | PostPurchaseCredits
  | GetQueueImageGeneration "string option" string
  | GetJobStatus "string option"
  | PostCancelJob "string option"
  | TimerFires nat
  | PromisesSettle nat services services services services

text \<open>A timer that fires leaves \<open>timers\<close> and starts its four adapter calls; nothing of
  the router's variables is read or written before the \<open>await\<close>.\<close>

definition fire :: "state \<Rightarrow> nat \<Rightarrow> state" where
  "fire s h =
     (case findIndex (\<lambda>t. handle t = h) (timers s) of
        None \<Rightarrow> s
      | Some i \<Rightarrow> s\<lparr> timers := splice1 i (timers s), running := running s @ [timers s ! i] \<rparr>)"

definition settle :: "state \<Rightarrow> nat \<Rightarrow> services \<Rightarrow> services \<Rightarrow> services \<Rightarrow> services \<Rightarrow> state" where
  "settle s h e1 e2 e3 e4 =
     (case findIndex (\<lambda>t. handle t = h) (running s) of
        None \<Rightarrow> s
      | Some i \<Rightarrow>
          timeoutCallback e1 e2 e3 e4 (forJob (running s ! i)) (forPrompt (running s ! i))
            (s\<lparr> running := splice1 i (running s) \<rparr>))"

fun step :: "state \<Rightarrow> event \<Rightarrow> state" where
  "step s GetCredits = snd (CREDITS s)"
| "step s PostPurchaseCredits = snd (PURCHASE_CREDITS s)"
| "step s (GetQueueImageGeneration query rendering) = snd (QUEUE_IMAGE_GENERATION s query rendering)"
| "step s (GetJobStatus query) = snd (JOB_STATUS s query)"
| "step s (PostCancelJob query) = snd (CANCEL_JOB s query)"
| "step s (TimerFires h) = fire s h"
| "step s (PromisesSettle h e1 e2 e3 e4) = settle s h e1 e2 e3 e4"

definition run :: "state \<Rightarrow> event list \<Rightarrow> state" where
  "run s evs = foldl step s evs"

subsection \<open>Membership in the three collections\<close>

definition inPending :: "state \<Rightarrow> string \<Rightarrow> bool" where
  "inPending s jid = some (\<lambda>j. jobId j = jid) (jobQueue s)"

definition inCompleted :: "state \<Rightarrow> string \<Rightarrow> bool" where
  "inCompleted s jid = (completedJobs s jid \<noteq> None)"

definition inCancelled :: "state \<Rightarrow> string \<Rightarrow> bool" where
  "inCancelled s jid = some (\<lambda>c. c = jid) (cancelledJobs s)"

subsection \<open>Observations used to state the properties\<close>



text \<open>A request passes both checks of the queue handler, so that a job ID is drawn.\<close>

definition accepts :: "state \<Rightarrow> string option \<Rightarrow> bool" where
  "accepts s query = (0 < credits s \<and> truthy query \<noteq> None)"

text \<open>A job ID that is in none of the three collections; every ID ever issued is in one of them.\<close>

definition unissued :: "state \<Rightarrow> string \<Rightarrow> bool" where
  "unissued s jid = (\<not> inPending s jid \<and> \<not> inCompleted s jid \<and> \<not> inCancelled s jid)"

text \<open>A run in which no accepted queue request draws an ID that was issued before. The code
  draws the ID from \<open>Math.random()\<close> and compares it with nothing.\<close>

fun freshDraw :: "state \<Rightarrow> event \<Rightarrow> bool" where
  "freshDraw s (GetQueueImageGeneration query rendering) =
     (if accepts s query then unissued s (generateJobId rendering) else True)"
| "freshDraw s ev = True"

fun freshDraws :: "state \<Rightarrow> event list \<Rightarrow> bool" where
  "freshDraws s [] = True"
| "freshDraws s (ev # evs) = (freshDraw s ev \<and> freshDraws (step s ev) evs)"

text \<open>In how many of the three collections a job ID is.\<close>

definition membershipCount :: "state \<Rightarrow> string \<Rightarrow> nat" where
  "membershipCount s jid =
     (if inPending s jid then 1 else 0) + (if inCompleted s jid then 1 else 0) +
     (if inCancelled s jid then 1 else 0)"

text \<open>The invariant behind exclusive membership, with the IDs of the pending jobs distinct.\<close>

definition exclusive :: "state \<Rightarrow> bool" where
  "exclusive s =
     (distinct (map jobId (jobQueue s)) \<and>
      jobId ` set (jobQueue s) \<inter> dom (completedJobs s) = {} \<and>
      jobId ` set (jobQueue s) \<inter> set (cancelledJobs s) = {} \<and>
      dom (completedJobs s) \<inter> set (cancelledJobs s) = {})"

text \<open>The callbacks that can still debit the balance, and a run in which every queue request
  that is accepted is made while the balance exceeds their number. A request that the handler
  refuses is not restricted.\<close>

definition outstanding :: "state \<Rightarrow> int" where
  "outstanding s = int (length (timers s) + length (running s))"

fun affordable :: "state \<Rightarrow> event \<Rightarrow> bool" where
  "affordable s (GetQueueImageGeneration query rendering) =
     (if accepts s query then outstanding s < credits s else True)"
| "affordable s ev = True"

fun withinBudget :: "state \<Rightarrow> event list \<Rightarrow> bool" where
  "withinBudget s [] = True"
| "withinBudget s (ev # evs) = (affordable s ev \<and> withinBudget (step s ev) evs)"

subsection \<open>Sample inputs\<close>

text \<open>A response whose second part carries an image, with a background removal that succeeds
  (\<open>sampleServices\<close>) or throws (\<open>plainServices\<close>), and a service whose call rejects.\<close>

definition sampleResponse :: generateContentResponse where
  "sampleResponse =
     \<lparr> candidates = Some [\<lparr> candidateContent = Some \<lparr> parts = Some
         [\<lparr> inlineData = None \<rparr>, \<lparr> inlineData = Some \<lparr> data = Some ''QUJD'' \<rparr> \<rparr>] \<rparr> \<rparr>] \<rparr>"

definition sampleServices :: services where
  "sampleServices =
     \<lparr> generateContent = (\<lambda>_. Some sampleResponse), removeBackground = (\<lambda>_. Some ''WFla'') \<rparr>"

definition plainServices :: services where
  "plainServices =
     \<lparr> generateContent = (\<lambda>_. Some sampleResponse), removeBackground = (\<lambda>_. None) \<rparr>"

definition rejectingServices :: services where
  "rejectingServices = \<lparr> generateContent = (\<lambda>_. None), removeBackground = (\<lambda>_. None) \<rparr>"

text \<open>Runs from the initial state: ten and eleven jobs queued and then all completed, a job
  whose timer has fired, the same job cancelled while its calls are in flight, two pending
  jobs with one ID of which the second has fired, a cancelled job in flight whose ID is drawn
  again, a job just queued, an ID drawn twice, and one run through every kind of event. Most renderings are
  cut to a few digits; the properties depend only on which of the drawn IDs coincide.\<close>

definition queueAll :: "string list \<Rightarrow> event list" where
  "queueAll rs = map (GetQueueImageGeneration (Some ''cat'')) rs"

definition finishAll :: "nat list \<Rightarrow> event list" where
  "finishAll hs =
     concat (map (\<lambda>h. [TimerFires h,
                         PromisesSettle h sampleServices sampleServices sampleServices sampleServices]) hs)"

definition tenJobs :: "event list" where
  "tenJobs =
     queueAll [''0.a'', ''0.b'', ''0.c'', ''0.d'', ''0.e'', ''0.f'', ''0.g'', ''0.h'', ''0.i'', ''0.j''] @
     finishAll [0, 1, 2, 3, 4, 5, 6, 7, 8, 9]"

definition elevenJobs :: "event list" where
  "elevenJobs =
     queueAll [''0.a'', ''0.b'', ''0.c'', ''0.d'', ''0.e'', ''0.f'', ''0.g'', ''0.h'', ''0.i'', ''0.j'',
               ''0.k''] @
     finishAll [0, 1, 2, 3, 4, 5, 6, 7, 8, 9, 10]"

definition tenJobsThenRefused :: "event list" where
  "tenJobsThenRefused = tenJobs @ [GetQueueImageGeneration (Some ''cat'') ''0.k'']"

definition fired :: state where
  "fired = run initialState [GetQueueImageGeneration (Some ''cat'') ''0.abc'', TimerFires 0]"

definition firedThenCancelled :: state where
  "firedThenCancelled =
     run initialState [GetQueueImageGeneration (Some ''cat'') ''0.abc'', TimerFires 0,
                       PostCancelJob (Some ''abc'')]"

definition drawnTwice :: state where
  "drawnTwice =
     run initialState [GetQueueImageGeneration (Some ''cat'') ''0.4fzyo82mvyt'',
                       GetQueueImageGeneration (Some ''dog'') ''0.4fzyo82mvyt'', TimerFires 1]"

definition redrawnInFlight :: state where
  "redrawnInFlight =
     run initialState [GetQueueImageGeneration (Some ''cat'') ''0.4fzyo82mvyt'', TimerFires 0,
                       PostCancelJob (Some ''4fzyo82mvyt''),
                       GetQueueImageGeneration (Some ''dog'') ''0.4fzyo82mvyt'']"

definition queued :: state where
  "queued = run initialState [GetQueueImageGeneration (Some ''dog'') ''0.xyz'']"

definition reissued :: "event list" where
  "reissued =
     [GetQueueImageGeneration (Some ''cat'') ''0.4fzyo82mvyt'', PostCancelJob (Some ''4fzyo82mvyt''),
      GetQueueImageGeneration (Some ''dog'') ''0.4fzyo82mvyt'']"

definition lifecycle :: "event list" where
  "lifecycle =
     [GetQueueImageGeneration (Some ''cat'') ''0.abc'', GetQueueImageGeneration (Some ''dog'') ''0.xyz'',
      PostCancelJob (Some ''abc''), TimerFires 1,
      PromisesSettle 1 sampleServices sampleServices sampleServices sampleServices,
      GetJobStatus (Some ''xyz''), PostPurchaseCredits]"

section \<open>Auxiliary facts\<close>

subsection \<open>Arrays\<close>

lemma some_iff: "some P xs \<longleftrightarrow> (\<exists>x \<in> set xs. P x)"
  by (induction xs) auto

lemma findIndex_None: "findIndex P xs = None \<longleftrightarrow> \<not> some P xs"
  by (induction xs) (auto split: option.splits)

lemma findIndex_Some:
  "findIndex P xs = Some i \<Longrightarrow> i < length xs \<and> P (xs ! i) \<and> \<not> some P (take i xs)"
proof (induction xs arbitrary: i)
  case Nil
  then show ?case by simp
next
  case (Cons x xs)
  show ?case
  proof (cases "P x")
    case True
    with Cons.prems show ?thesis by simp
  next
    case False
    with Cons.prems obtain k where k: "findIndex P xs = Some k" "i = Suc k"
      by (auto split: option.splits)
    with Cons.IH [of k] False show ?thesis by simp
  qed
qed

lemma some_findIndex: "some P xs \<Longrightarrow> \<exists>i. findIndex P xs = Some i"
  using findIndex_None [of P xs] by (cases "findIndex P xs") auto

lemma length_splice1: "i < length xs \<Longrightarrow> Suc (length (splice1 i xs)) = length xs"
  by (auto simp: splice1_def)

lemma set_splice1: "set (splice1 i xs) \<subseteq> set xs"
  unfolding splice1_def by (auto dest: in_set_takeD in_set_dropD)

lemma distinct_splice1: "distinct (map f xs) \<Longrightarrow> distinct (map f (splice1 i xs))"
proof -
  assume d: "distinct (map f xs)"
  have "map f xs = map f (take i xs) @ map f (drop i xs)"
    by (simp flip: map_append)
  with d have a: "distinct (map f (take i xs))" "distinct (map f (drop i xs))"
    "set (map f (take i xs)) \<inter> set (map f (drop i xs)) = {}"
    by (metis distinct_append)+
  have "set (drop (Suc i) xs) \<subseteq> set (drop i xs)"
    by (simp add: set_drop_subset_set_drop)
  moreover have "distinct (map f (drop (Suc i) xs))"
    using d by (simp add: distinct_map distinct_drop inj_on_subset [OF _ set_drop_subset])
  ultimately show ?thesis
    using a unfolding splice1_def by auto
qed

lemma splice1_removes:
  assumes "distinct (map f xs)" and "findIndex (\<lambda>x. f x = k) xs = Some i"
  shows "\<not> some (\<lambda>x. f x = k) (splice1 i xs)"
proof -
  from findIndex_Some [OF assms(2)] have i: "i < length xs" "f (xs ! i) = k"
    and before: "\<not> some (\<lambda>x. f x = k) (take i xs)" by auto
  have xs: "xs = take i xs @ xs ! i # drop (Suc i) xs"
    using i(1) by (simp add: id_take_nth_drop)
  from assms(1) have "distinct (map f (take i xs @ xs ! i # drop (Suc i) xs))"
    using xs by simp
  then have notin: "f (xs ! i) \<notin> f ` set (drop (Suc i) xs)"
    by simp
  have "\<not> some (\<lambda>x. f x = k) (drop (Suc i) xs)"
  proof
    assume "some (\<lambda>x. f x = k) (drop (Suc i) xs)"
    then obtain x where "x \<in> set (drop (Suc i) xs)" and "f x = k"
      by (auto simp: some_iff)
    with i(2) have "f (xs ! i) \<in> f ` set (drop (Suc i) xs)"
      by (metis imageI)
    with notin show False ..
  qed
  with before show ?thesis
    by (auto simp: some_iff splice1_def)
qed

lemma promiseAll_rejects: "Inl err \<in> set rs \<Longrightarrow> \<exists>e. promiseAll rs = Inl e"
proof (induction rs)
  case Nil
  then show ?case by simp
next
  case (Cons r rs)
  then show ?case
    by (cases r) (auto split: sum.splits)
qed

subsection \<open>Evaluating the sample inputs\<close>

lemma generate_sample: "generateGeminiImage sampleServices p = Inr (imageResult (dataUrl ''WFla'') p)"
  by (simp add: generateGeminiImage_def sampleServices_def sampleResponse_def inlinePayload_def)

lemma generate_plain: "generateGeminiImage plainServices p = Inr (imageResult (dataUrl ''QUJD'') p)"
  by (simp add: generateGeminiImage_def plainServices_def sampleResponse_def inlinePayload_def)

lemma generate_rejecting: "generateGeminiImage rejectingServices p = Inl ServiceRejected"
  by (simp add: generateGeminiImage_def rejectingServices_def)

lemmas run_simps =
  run_def queueAll_def finishAll_def initialState_def QUEUE_IMAGE_GENERATION_def
  CANCEL_JOB_def PURCHASE_CREDITS_def CREDITS_def JOB_STATUS_def CREDITS_IN_BUNDLE_def
  generateJobId_def substring_def setTimeout_def clearTimeout_def fire_def settle_def
  timeoutCallback_def generate_sample generate_plain generate_rejecting splice1_def Let_def

lemma credits_tenJobs: "credits (run initialState tenJobs) = 0"
  by (simp add: tenJobs_def run_simps)

lemma fired_eq:
  "fired = \<lparr> jobQueue = [\<lparr> jobId = ''abc'', prompt = ''cat'', timeoutId = 0 \<rparr>],
             completedJobs = Map.empty, cancelledJobs = [], credits = 10, timers = [],
             running = [\<lparr> handle = 0, forJob = ''abc'', forPrompt = ''cat'' \<rparr>], nextHandle = 1 \<rparr>"
  by (simp add: fired_def run_simps)

lemma firedThenCancelled_eq:
  "firedThenCancelled = \<lparr> jobQueue = [],
             completedJobs = Map.empty, cancelledJobs = [''abc''], credits = 10, timers = [],
             running = [\<lparr> handle = 0, forJob = ''abc'', forPrompt = ''cat'' \<rparr>], nextHandle = 1 \<rparr>"
  by (simp add: firedThenCancelled_def run_simps)

lemma drawnTwice_eq:
  "drawnTwice =
     \<lparr> jobQueue = [\<lparr> jobId = ''4fzyo82mvyt'', prompt = ''cat'', timeoutId = 0 \<rparr>,
                   \<lparr> jobId = ''4fzyo82mvyt'', prompt = ''dog'', timeoutId = 1 \<rparr>],
       completedJobs = Map.empty, cancelledJobs = [], credits = 10,
       timers = [\<lparr> handle = 0, forJob = ''4fzyo82mvyt'', forPrompt = ''cat'' \<rparr>],
       running = [\<lparr> handle = 1, forJob = ''4fzyo82mvyt'', forPrompt = ''dog'' \<rparr>],
       nextHandle = 2 \<rparr>"
  by (simp add: drawnTwice_def run_simps)

lemma redrawnInFlight_eq:
  "redrawnInFlight =
     \<lparr> jobQueue = [\<lparr> jobId = ''4fzyo82mvyt'', prompt = ''dog'', timeoutId = 1 \<rparr>],
       completedJobs = Map.empty, cancelledJobs = [''4fzyo82mvyt''], credits = 10,
       timers = [\<lparr> handle = 1, forJob = ''4fzyo82mvyt'', forPrompt = ''dog'' \<rparr>],
       running = [\<lparr> handle = 0, forJob = ''4fzyo82mvyt'', forPrompt = ''cat'' \<rparr>],
       nextHandle = 2 \<rparr>"
  by (simp add: redrawnInFlight_def run_simps)

lemma queued_eq:
  "queued = \<lparr> jobQueue = [\<lparr> jobId = ''xyz'', prompt = ''dog'', timeoutId = 0 \<rparr>],
             completedJobs = Map.empty, cancelledJobs = [], credits = 10,
             timers = [\<lparr> handle = 0, forJob = ''xyz'', forPrompt = ''dog'' \<rparr>],
             running = [], nextHandle = 1 \<rparr>"
  by (simp add: queued_def run_simps)

lemma lifecycle_eq:
  "jobQueue (run initialState lifecycle) = [] \<and>
   cancelledJobs (run initialState lifecycle) = [''abc''] \<and>
   completedJobs (run initialState lifecycle) ''abc'' = None \<and>
   completedJobs (run initialState lifecycle) ''xyz'' \<noteq> None \<and>
   credits (run initialState lifecycle) = 19"
  by (simp add: lifecycle_def run_simps getProperty_def)

subsection \<open>The handlers by cases\<close>

lemma timeoutCallback_success:
  assumes "[generateGeminiImage e1 p, generateGeminiImage e2 p,
            generateGeminiImage e3 p, generateGeminiImage e4 p] = [Inr i1, Inr i2, Inr i3, Inr i4]"
  shows "timeoutCallback e1 e2 e3 e4 jid p s =
     (case findIndex (\<lambda>j. jobId j = jid) (jobQueue s) of
        None \<Rightarrow> s
      | Some index \<Rightarrow>
          s\<lparr> jobQueue := splice1 index (jobQueue s),
             completedJobs := (completedJobs s)(jid \<mapsto> [i1, i2, i3, i4]),
             credits := credits s - 1 \<rparr>)"
  using assms by (simp add: timeoutCallback_def)

lemma timeoutCallback_failure:
  assumes "Inl err \<in> set [generateGeminiImage e1 p, generateGeminiImage e2 p,
            generateGeminiImage e3 p, generateGeminiImage e4 p]"
  shows "timeoutCallback e1 e2 e3 e4 jid p s = s"
proof -
  from promiseAll_rejects [OF assms] obtain e where
    "promiseAll [generateGeminiImage e1 p, generateGeminiImage e2 p,
                 generateGeminiImage e3 p, generateGeminiImage e4 p] = Inl e" ..
  then show ?thesis by (simp add: timeoutCallback_def)
qed

lemma timeoutCallback_cases:
  "timeoutCallback e1 e2 e3 e4 jid p s = s \<or>
   (\<exists>index images. findIndex (\<lambda>j. jobId j = jid) (jobQueue s) = Some index \<and>
      timeoutCallback e1 e2 e3 e4 jid p s =
        s\<lparr> jobQueue := splice1 index (jobQueue s),
           completedJobs := (completedJobs s)(jid \<mapsto> images),
           credits := credits s - 1 \<rparr>)"
  by (auto simp: timeoutCallback_def split: sum.split option.split)

lemma CANCEL_JOB_found:
  assumes "jid \<noteq> []" and "findIndex (\<lambda>j. jobId j = jid) (jobQueue s) = Some index"
  shows "CANCEL_JOB s (Some jid) =
     ((200, Text ''Job successfully cancelled.''),
      s\<lparr> cancelledJobs := cancelledJobs s @ [jid],
         jobQueue := splice1 index (jobQueue s),
         timers := filter (\<lambda>t. handle t \<noteq> timeoutId (jobQueue s ! index)) (timers s) \<rparr>)"
  using assms by (simp add: CANCEL_JOB_def clearTimeout_def Let_def)

lemma CANCEL_JOB_not_found:
  assumes "jid \<noteq> []" and "\<not> inPending s jid"
  shows "CANCEL_JOB s (Some jid) = ((404, Text ''Job not found.''), s)"
proof -
  from assms(2) have "findIndex (\<lambda>j. jobId j = jid) (jobQueue s) = None"
    by (simp add: inPending_def findIndex_None)
  with assms(1) show ?thesis by (simp add: CANCEL_JOB_def)
qed

lemma CANCEL_JOB_cases:
  "snd (CANCEL_JOB s query) = s \<or>
   (\<exists>index jid. findIndex (\<lambda>j. jobId j = jid) (jobQueue s) = Some index \<and>
      snd (CANCEL_JOB s query) =
        s\<lparr> cancelledJobs := cancelledJobs s @ [jid],
           jobQueue := splice1 index (jobQueue s),
           timers := filter (\<lambda>t. handle t \<noteq> timeoutId (jobQueue s ! index)) (timers s) \<rparr>)"
  by (auto simp: CANCEL_JOB_def clearTimeout_def Let_def split: option.split)

lemma QUEUE_cases:
  "(\<not> accepts s query \<and> snd (QUEUE_IMAGE_GENERATION s query rendering) = s) \<or>
   (\<exists>p. accepts s query \<and>
      snd (QUEUE_IMAGE_GENERATION s query rendering) =
        s\<lparr> timers := timers s @ [\<lparr> handle = nextHandle s, forJob = generateJobId rendering,
                                     forPrompt = p \<rparr>],
           nextHandle := nextHandle s + 1,
           jobQueue := jobQueue s @ [\<lparr> jobId = generateJobId rendering, prompt = p,
                                         timeoutId = nextHandle s \<rparr>] \<rparr>)"
  by (auto simp: QUEUE_IMAGE_GENERATION_def accepts_def setTimeout_def Let_def split: option.split)

subsection \<open>Membership\<close>

lemma membershipCount_le_1:
  "membershipCount s k \<le> 1 \<longleftrightarrow>
     \<not> (inPending s k \<and> inCompleted s k) \<and> \<not> (inPending s k \<and> inCancelled s k) \<and>
     \<not> (inCompleted s k \<and> inCancelled s k)"
  by (simp add: membershipCount_def)

lemma inPending_iff: "inPending s k \<longleftrightarrow> k \<in> jobId ` set (jobQueue s)"
  by (auto simp: inPending_def some_iff)

lemma inCancelled_iff: "inCancelled s k \<longleftrightarrow> k \<in> set (cancelledJobs s)"
  by (auto simp: inCancelled_def some_iff)

lemma splice1_found:
  assumes d: "distinct (map jobId (jobQueue s))"
    and index: "findIndex (\<lambda>j. jobId j = jid) (jobQueue s) = Some index"
  shows "jid \<in> jobId ` set (jobQueue s)"
    and "jid \<notin> jobId ` set (splice1 index (jobQueue s))"
    and "jobId ` set (splice1 index (jobQueue s)) \<subseteq> jobId ` set (jobQueue s)"
    and "distinct (map jobId (splice1 index (jobQueue s)))"
proof -
  from findIndex_Some [OF index] have "jobId (jobQueue s ! index) = jid" "index < length (jobQueue s)"
    by simp_all
  then show "jid \<in> jobId ` set (jobQueue s)"
    by (metis imageI nth_mem)
  show "jid \<notin> jobId ` set (splice1 index (jobQueue s))"
    using splice1_removes [OF d index] by (auto simp: some_iff)
  show "jobId ` set (splice1 index (jobQueue s)) \<subseteq> jobId ` set (jobQueue s)"
    using set_splice1 [of index "jobQueue s"] by blast
  show "distinct (map jobId (splice1 index (jobQueue s)))"
    by (rule distinct_splice1 [OF d])
qed

section \<open>The delayed action (C1)\<close>

text \<open>C1, as amended. When the callback of a job resumes after its four adapter calls: if all four
  succeeded and an entry with the job's ID is in \<open>jobQueue\<close>, the first such entry is removed
  (the queue gets one shorter, and the ID is gone from it when the pending IDs are distinct),
  the array of the four results is stored in \<open>completedJobs\<close> under the ID and \<open>credits\<close>
  drops by exactly 1; if all four succeeded and no entry has the ID (the job was cancelled),
  the state is unchanged; if any of the four calls failed, the state is unchanged, so the job
  stays pending, nothing is stored and the balance is kept.\<close>

theorem timeoutCallback_outcomes:
  "(let s' = timeoutCallback e1 e2 e3 e4 jid p s;
        results = [generateGeminiImage e1 p, generateGeminiImage e2 p,
                   generateGeminiImage e3 p, generateGeminiImage e4 p]
    in (results = [Inr i1, Inr i2, Inr i3, Inr i4] \<and> inPending s jid \<longrightarrow>
          (\<exists>index. findIndex (\<lambda>j. jobId j = jid) (jobQueue s) = Some index \<and>
             s' = s\<lparr> jobQueue := splice1 index (jobQueue s),
                     completedJobs := (completedJobs s)(jid \<mapsto> [i1, i2, i3, i4]),
                     credits := credits s - 1 \<rparr>) \<and>
          length (jobQueue s') + 1 = length (jobQueue s) \<and>
          completedJobs s' jid = Some [i1, i2, i3, i4] \<and>
          credits s' = credits s - 1 \<and>
          (distinct (map jobId (jobQueue s)) \<longrightarrow> \<not> inPending s' jid)) \<and>
       (results = [Inr i1, Inr i2, Inr i3, Inr i4] \<and> \<not> inPending s jid \<longrightarrow> s' = s) \<and>
       ((\<exists>err. Inl err \<in> set results) \<longrightarrow> s' = s))"
proof -
  let ?results = "[generateGeminiImage e1 p, generateGeminiImage e2 p,
                   generateGeminiImage e3 p, generateGeminiImage e4 p]"
  let ?s' = "timeoutCallback e1 e2 e3 e4 jid p s"
  have present: "(\<exists>index. findIndex (\<lambda>j. jobId j = jid) (jobQueue s) = Some index \<and>
             ?s' = s\<lparr> jobQueue := splice1 index (jobQueue s),
                     completedJobs := (completedJobs s)(jid \<mapsto> [i1, i2, i3, i4]),
                     credits := credits s - 1 \<rparr>) \<and>
          length (jobQueue ?s') + 1 = length (jobQueue s) \<and>
          completedJobs ?s' jid = Some [i1, i2, i3, i4] \<and>
          credits ?s' = credits s - 1 \<and>
          (distinct (map jobId (jobQueue s)) \<longrightarrow> \<not> inPending ?s' jid)"
    if ok: "?results = [Inr i1, Inr i2, Inr i3, Inr i4]" and pending: "inPending s jid"
  proof -
    from pending obtain index where index: "findIndex (\<lambda>j. jobId j = jid) (jobQueue s) = Some index"
      unfolding inPending_def by (blast dest: some_findIndex)
    from timeoutCallback_success [OF ok, of jid s] index
    have s': "?s' = s\<lparr> jobQueue := splice1 index (jobQueue s),
                     completedJobs := (completedJobs s)(jid \<mapsto> [i1, i2, i3, i4]),
                     credits := credits s - 1 \<rparr>"
      by simp
    from findIndex_Some [OF index] have "index < length (jobQueue s)" by simp
    then have len: "length (jobQueue ?s') + 1 = length (jobQueue s)"
      by (simp add: s' length_splice1)
    have gone: "\<not> inPending ?s' jid" if "distinct (map jobId (jobQueue s))"
      using splice1_removes [OF that index] by (simp add: s' inPending_def)
    from index s' len gone show ?thesis by simp
  qed
  have absent: "?s' = s"
    if ok: "?results = [Inr i1, Inr i2, Inr i3, Inr i4]" and "\<not> inPending s jid"
  proof -
    from that(2) have "findIndex (\<lambda>j. jobId j = jid) (jobQueue s) = None"
      by (simp add: inPending_def findIndex_None)
    with timeoutCallback_success [OF ok, of jid s] show ?thesis by simp
  qed
  have failed: "?s' = s" if "\<exists>err. Inl err \<in> set ?results"
    using that timeoutCallback_failure [of _ e1 p e2 e3 e4 jid s] by blast
  from present absent failed show ?thesis
    unfolding Let_def by blast
qed

text \<open>The three cases on runs from the initial state: a job whose timer has fired completes,
  the same job cancelled in flight is discarded, and a rejected second call changes nothing.\<close>

theorem timeoutCallback_outcomes_witness:
  "inPending fired ''abc'' \<and>
   jobQueue (timeoutCallback sampleServices sampleServices sampleServices sampleServices ''abc'' ''cat'' fired) = [] \<and>
   completedJobs (timeoutCallback sampleServices sampleServices sampleServices sampleServices ''abc'' ''cat'' fired) ''abc'' =
     Some (replicate 4 (imageResult (dataUrl ''WFla'') ''cat'')) \<and>
   credits (timeoutCallback sampleServices sampleServices sampleServices sampleServices ''abc'' ''cat'' fired) = 9 \<and>
   \<not> inPending (timeoutCallback sampleServices sampleServices sampleServices sampleServices ''abc'' ''cat'' fired) ''abc'' \<and>
   \<not> inPending firedThenCancelled ''abc'' \<and>
   timeoutCallback sampleServices sampleServices sampleServices sampleServices ''abc'' ''cat'' firedThenCancelled =
     firedThenCancelled \<and>
   timeoutCallback sampleServices rejectingServices sampleServices sampleServices ''abc'' ''cat'' fired = fired"
proof -
  let ?img = "imageResult (dataUrl ''WFla'') ''cat''"
  have ok: "[generateGeminiImage sampleServices ''cat'', generateGeminiImage sampleServices ''cat'',
             generateGeminiImage sampleServices ''cat'', generateGeminiImage sampleServices ''cat''] =
            [Inr ?img, Inr ?img, Inr ?img, Inr ?img]"
    by (simp add: generate_sample)
  have bad: "\<exists>err. Inl err \<in> set [generateGeminiImage sampleServices ''cat'',
             generateGeminiImage rejectingServices ''cat'',
             generateGeminiImage sampleServices ''cat'', generateGeminiImage sampleServices ''cat'']"
    by (rule exI [of _ ServiceRejected]) (simp add: generate_rejecting)
  have p1: "inPending fired ''abc''" and d1: "distinct (map jobId (jobQueue fired))"
    and l1: "length (jobQueue fired) = 1" and c1: "credits fired = 10"
    by (simp_all add: fired_eq inPending_def)
  have p2: "\<not> inPending firedThenCancelled ''abc''"
    by (simp add: firedThenCancelled_eq inPending_def)
  from timeoutCallback_outcomes
    [of sampleServices sampleServices sampleServices sampleServices "''abc''" "''cat''" fired
        ?img ?img ?img ?img]
    ok p1 d1 l1 c1
  have a: "jobQueue (timeoutCallback sampleServices sampleServices sampleServices sampleServices ''abc'' ''cat'' fired) = []"
    "completedJobs (timeoutCallback sampleServices sampleServices sampleServices sampleServices ''abc'' ''cat'' fired) ''abc'' =
       Some (replicate 4 ?img)"
    "credits (timeoutCallback sampleServices sampleServices sampleServices sampleServices ''abc'' ''cat'' fired) = 9"
    "\<not> inPending (timeoutCallback sampleServices sampleServices sampleServices sampleServices ''abc'' ''cat'' fired) ''abc''"
    unfolding Let_def by (simp_all add: numeral_eq_Suc)
  from timeoutCallback_outcomes
    [of sampleServices sampleServices sampleServices sampleServices "''abc''" "''cat''" firedThenCancelled
        ?img ?img ?img ?img]
    ok p2
  have b: "timeoutCallback sampleServices sampleServices sampleServices sampleServices ''abc'' ''cat'' firedThenCancelled =
     firedThenCancelled"
    unfolding Let_def by blast
  from timeoutCallback_outcomes
    [of sampleServices rejectingServices sampleServices sampleServices "''abc''" "''cat''" fired]
    bad
  have c: "timeoutCallback sampleServices rejectingServices sampleServices sampleServices ''abc'' ''cat'' fired = fired"
    unfolding Let_def by blast
  from p1 p2 a b c show ?thesis by simp
qed

text \<open>The claim as stated fails where one ID was drawn twice. With two pending jobs of one
  ID, the callback of the second (handle 1, prompt \<open>dog\<close>) succeeds and removes the entry of the
  first, so the job whose action fired is still pending. With a job cancelled in flight and
  its ID drawn again, the callback of the cancelled job (handle 0, prompt \<open>cat\<close>) does not
  discard its results: it completes the later job with them and debits the balance.\<close>

theorem timeoutCallback_outcomes_counterexample:
  "running drawnTwice = [\<lparr> handle = 1, forJob = ''4fzyo82mvyt'', forPrompt = ''dog'' \<rparr>] \<and>
   generateGeminiImage sampleServices ''dog'' = Inr (imageResult (dataUrl ''WFla'') ''dog'') \<and>
   inPending drawnTwice ''4fzyo82mvyt'' \<and>
   jobQueue (timeoutCallback sampleServices sampleServices sampleServices sampleServices
               ''4fzyo82mvyt'' ''dog'' drawnTwice) =
     [\<lparr> jobId = ''4fzyo82mvyt'', prompt = ''dog'', timeoutId = 1 \<rparr>] \<and>
   inPending (timeoutCallback sampleServices sampleServices sampleServices sampleServices
                ''4fzyo82mvyt'' ''dog'' drawnTwice) ''4fzyo82mvyt'' \<and>
   running redrawnInFlight = [\<lparr> handle = 0, forJob = ''4fzyo82mvyt'', forPrompt = ''cat'' \<rparr>] \<and>
   inCancelled redrawnInFlight ''4fzyo82mvyt'' \<and>
   jobQueue redrawnInFlight = [\<lparr> jobId = ''4fzyo82mvyt'', prompt = ''dog'', timeoutId = 1 \<rparr>] \<and>
   completedJobs (timeoutCallback sampleServices sampleServices sampleServices sampleServices
                    ''4fzyo82mvyt'' ''cat'' redrawnInFlight) ''4fzyo82mvyt'' =
     Some (replicate 4 (imageResult (dataUrl ''WFla'') ''cat'')) \<and>
   credits redrawnInFlight = 10 \<and>
   credits (timeoutCallback sampleServices sampleServices sampleServices sampleServices
              ''4fzyo82mvyt'' ''cat'' redrawnInFlight) = 9"
  by (simp add: drawnTwice_eq redrawnInFlight_eq timeoutCallback_def generate_sample splice1_def
      inPending_def inCancelled_def numeral_eq_Suc)

section \<open>Exclusive membership (C2)\<close>

lemma exclusive_sets:
  "exclusive s \<longleftrightarrow>
     distinct (map jobId (jobQueue s)) \<and>
     jobId ` set (jobQueue s) \<inter> dom (completedJobs s) = {} \<and>
     jobId ` set (jobQueue s) \<inter> set (cancelledJobs s) = {} \<and>
     dom (completedJobs s) \<inter> set (cancelledJobs s) = {}"
  by (rule exclusive_def)

lemma exclusive_same:
  assumes "exclusive s" and "jobQueue s' = jobQueue s" and "completedJobs s' = completedJobs s"
    and "cancelledJobs s' = cancelledJobs s"
  shows "exclusive s'"
  using assms by (simp add: exclusive_sets)

lemma exclusive_queue:
  assumes ex: "exclusive s" and fresh: "unissued s jid"
    and q: "jobQueue s' = jobQueue s @ [\<lparr> jobId = jid, prompt = p, timeoutId = tid \<rparr>]"
    and c: "completedJobs s' = completedJobs s" and x: "cancelledJobs s' = cancelledJobs s"
  shows "exclusive s'"
proof -
  from fresh have "jid \<notin> jobId ` set (jobQueue s)" "jid \<notin> dom (completedJobs s)"
    "jid \<notin> set (cancelledJobs s)"
    by (auto simp: unissued_def inPending_iff inCancelled_iff inCompleted_def)
  with ex show ?thesis
    unfolding exclusive_sets q c x by auto
qed

lemma exclusive_cancel:
  assumes ex: "exclusive s" and index: "findIndex (\<lambda>j. jobId j = jid) (jobQueue s) = Some index"
    and q: "jobQueue s' = splice1 index (jobQueue s)"
    and c: "completedJobs s' = completedJobs s" and x: "cancelledJobs s' = cancelledJobs s @ [jid]"
  shows "exclusive s'"
proof -
  define P where "P = jobId ` set (jobQueue s)"
  define P' where "P' = jobId ` set (splice1 index (jobQueue s))"
  from ex have d: "distinct (map jobId (jobQueue s))"
    and e: "P \<inter> dom (completedJobs s) = {}" "P \<inter> set (cancelledJobs s) = {}"
      "dom (completedJobs s) \<inter> set (cancelledJobs s) = {}"
    by (simp_all add: exclusive_sets P_def)
  from splice1_found [OF d index] have f: "jid \<in> P" "jid \<notin> P'" "P' \<subseteq> P"
    and d': "distinct (map jobId (splice1 index (jobQueue s)))"
    by (simp_all add: P_def P'_def)
  from e f have "P' \<inter> dom (completedJobs s) = {}" "P' \<inter> (set (cancelledJobs s) \<union> {jid}) = {}"
    "dom (completedJobs s) \<inter> (set (cancelledJobs s) \<union> {jid}) = {}"
    by blast+
  with d' show ?thesis
    unfolding exclusive_sets q c x by (simp add: P'_def)
qed

lemma exclusive_complete:
  assumes ex: "exclusive s" and index: "findIndex (\<lambda>j. jobId j = jid) (jobQueue s) = Some index"
    and q: "jobQueue s' = splice1 index (jobQueue s)"
    and c: "completedJobs s' = (completedJobs s)(jid \<mapsto> images)"
    and x: "cancelledJobs s' = cancelledJobs s"
  shows "exclusive s'"
proof -
  define P where "P = jobId ` set (jobQueue s)"
  define P' where "P' = jobId ` set (splice1 index (jobQueue s))"
  from ex have d: "distinct (map jobId (jobQueue s))"
    and e: "P \<inter> dom (completedJobs s) = {}" "P \<inter> set (cancelledJobs s) = {}"
      "dom (completedJobs s) \<inter> set (cancelledJobs s) = {}"
    by (simp_all add: exclusive_sets P_def)
  from splice1_found [OF d index] have f: "jid \<in> P" "jid \<notin> P'" "P' \<subseteq> P"
    and d': "distinct (map jobId (splice1 index (jobQueue s)))"
    by (simp_all add: P_def P'_def)
  from e f have "P' \<inter> insert jid (dom (completedJobs s)) = {}" "P' \<inter> set (cancelledJobs s) = {}"
    "insert jid (dom (completedJobs s)) \<inter> set (cancelledJobs s) = {}"
    by blast+
  with d' show ?thesis
    unfolding exclusive_sets q c x by (simp add: P'_def)
qed

lemma exclusive_step:
  assumes ex: "exclusive s" and fresh: "freshDraw s ev"
  shows "exclusive (step s ev)"
proof (cases ev)
  case GetCredits
  with ex show ?thesis by (simp add: CREDITS_def)
next
  case PostPurchaseCredits
  with ex show ?thesis
    by (auto simp: PURCHASE_CREDITS_def Let_def intro: exclusive_same)
next
  case (GetQueueImageGeneration query rendering)
  from QUEUE_cases [of s query rendering] show ?thesis
  proof
    assume "\<not> accepts s query \<and> snd (QUEUE_IMAGE_GENERATION s query rendering) = s"
    with ex GetQueueImageGeneration show ?thesis by simp
  next
    assume "\<exists>p. accepts s query \<and>
      snd (QUEUE_IMAGE_GENERATION s query rendering) =
        s\<lparr> timers := timers s @ [\<lparr> handle = nextHandle s, forJob = generateJobId rendering,
                                     forPrompt = p \<rparr>],
           nextHandle := nextHandle s + 1,
           jobQueue := jobQueue s @ [\<lparr> jobId = generateJobId rendering, prompt = p,
                                         timeoutId = nextHandle s \<rparr>] \<rparr>"
    then obtain p where acc: "accepts s query" and
      eq: "snd (QUEUE_IMAGE_GENERATION s query rendering) =
        s\<lparr> timers := timers s @ [\<lparr> handle = nextHandle s, forJob = generateJobId rendering,
                                     forPrompt = p \<rparr>],
           nextHandle := nextHandle s + 1,
           jobQueue := jobQueue s @ [\<lparr> jobId = generateJobId rendering, prompt = p,
                                         timeoutId = nextHandle s \<rparr>] \<rparr>"
      by blast
    from fresh acc GetQueueImageGeneration have "unissued s (generateJobId rendering)" by simp
    from exclusive_queue [OF ex this, of "snd (QUEUE_IMAGE_GENERATION s query rendering)"] eq
      GetQueueImageGeneration
    show ?thesis by simp
  qed
next
  case (GetJobStatus query)
  have "snd (JOB_STATUS s query) = s"
    by (simp add: JOB_STATUS_def split: option.split property.split)
  with ex GetJobStatus show ?thesis by simp
next
  case (PostCancelJob query)
  from CANCEL_JOB_cases [of s query] show ?thesis
  proof
    assume "snd (CANCEL_JOB s query) = s"
    with ex PostCancelJob show ?thesis by simp
  next
    assume "\<exists>index jid. findIndex (\<lambda>j. jobId j = jid) (jobQueue s) = Some index \<and>
      snd (CANCEL_JOB s query) =
        s\<lparr> cancelledJobs := cancelledJobs s @ [jid],
           jobQueue := splice1 index (jobQueue s),
           timers := filter (\<lambda>t. handle t \<noteq> timeoutId (jobQueue s ! index)) (timers s) \<rparr>"
    then obtain index jid where index: "findIndex (\<lambda>j. jobId j = jid) (jobQueue s) = Some index"
      and eq: "snd (CANCEL_JOB s query) =
        s\<lparr> cancelledJobs := cancelledJobs s @ [jid],
           jobQueue := splice1 index (jobQueue s),
           timers := filter (\<lambda>t. handle t \<noteq> timeoutId (jobQueue s ! index)) (timers s) \<rparr>"
      by blast
    from exclusive_cancel [OF ex index, of "snd (CANCEL_JOB s query)"] eq PostCancelJob
    show ?thesis by simp
  qed
next
  case (TimerFires h)
  with ex show ?thesis
    by (auto simp: fire_def split: option.split intro: exclusive_same)
next
  case (PromisesSettle h e1 e2 e3 e4)
  show ?thesis
  proof (cases "findIndex (\<lambda>t. handle t = h) (running s)")
    case None
    with ex PromisesSettle show ?thesis by (simp add: settle_def)
  next
    case (Some i)
    let ?s1 = "s\<lparr> running := splice1 i (running s) \<rparr>"
    have ex1: "exclusive ?s1" using ex by (auto intro: exclusive_same)
    let ?s2 = "timeoutCallback e1 e2 e3 e4 (forJob (running s ! i)) (forPrompt (running s ! i)) ?s1"
    from timeoutCallback_cases [of e1 e2 e3 e4 "forJob (running s ! i)" "forPrompt (running s ! i)" ?s1]
    have "exclusive ?s2"
    proof
      assume "?s2 = ?s1"
      with ex1 show ?thesis by simp
    next
      assume "\<exists>index images.
        findIndex (\<lambda>j. jobId j = forJob (running s ! i)) (jobQueue ?s1) = Some index \<and>
        ?s2 = ?s1\<lparr> jobQueue := splice1 index (jobQueue ?s1),
                      completedJobs := (completedJobs ?s1)(forJob (running s ! i) \<mapsto> images),
                      credits := credits ?s1 - 1 \<rparr>"
      then obtain index images where
        index: "findIndex (\<lambda>j. jobId j = forJob (running s ! i)) (jobQueue ?s1) = Some index" and
        eq: "?s2 = ?s1\<lparr> jobQueue := splice1 index (jobQueue ?s1),
                      completedJobs := (completedJobs ?s1)(forJob (running s ! i) \<mapsto> images),
                      credits := credits ?s1 - 1 \<rparr>"
        by blast
      from exclusive_complete [OF ex1 index, of ?s2 images] eq show ?thesis by simp
    qed
    with Some PromisesSettle show ?thesis by (simp add: settle_def)
  qed
qed

lemma exclusive_run: "exclusive s \<Longrightarrow> freshDraws s evs \<Longrightarrow> exclusive (run s evs)"
proof (induction evs arbitrary: s)
  case Nil
  then show ?case by (simp add: run_def)
next
  case (Cons ev evs)
  from Cons.prems have "exclusive (step s ev)" "freshDraws (step s ev) evs"
    by (simp_all add: exclusive_step)
  from Cons.IH [OF this] show ?case by (simp add: run_def)
qed

lemma exclusive_initialState: "exclusive initialState"
  by (simp add: exclusive_def initialState_def)

lemma exclusive_membership: "exclusive s \<Longrightarrow> membershipCount s k \<le> 1"
  unfolding membershipCount_le_1 exclusive_def inPending_iff inCancelled_iff inCompleted_def dom_def
  by blast

text \<open>C2, as amended. In every state reached from the initial state by a sequence of the five
  requests, timer firings and settlements in which no accepted queue request draws a job ID
  issued before, each job ID is in at most one of \<open>jobQueue\<close>, \<open>completedJobs\<close> and
  \<open>cancelledJobs\<close>.\<close>

theorem membership_exclusive:
  "freshDraws initialState evs \<Longrightarrow> membershipCount (run initialState evs) jid \<le> 1"
  using exclusive_run [OF exclusive_initialState, of evs]
  by (blast intro: exclusive_membership)

text \<open>Without that proviso the claim fails: an ID is drawn, cancelled and drawn again, and is then
  both pending and cancelled.\<close>

theorem membership_exclusive_counterexample:
  "inPending (run initialState reissued) ''4fzyo82mvyt'' \<and>
   inCancelled (run initialState reissued) ''4fzyo82mvyt'' \<and>
   membershipCount (run initialState reissued) ''4fzyo82mvyt'' = 2"
  by (simp add: reissued_def membershipCount_def inPending_def inCancelled_def inCompleted_def run_simps)

text \<open>A run with fresh draws in which one job is cancelled and another completes.\<close>

theorem membership_exclusive_witness:
  "freshDraws initialState lifecycle \<and>
   membershipCount (run initialState lifecycle) ''abc'' \<le> 1 \<and>
   membershipCount (run initialState lifecycle) ''xyz'' \<le> 1 \<and>
   inCancelled (run initialState lifecycle) ''abc'' \<and>
   inCompleted (run initialState lifecycle) ''xyz''"
proof -
  have f: "freshDraws initialState lifecycle"
    by (simp add: lifecycle_def accepts_def unissued_def inPending_def inCancelled_def inCompleted_def
        run_simps)
  from membership_exclusive [OF f, of "''abc''"] membership_exclusive [OF f, of "''xyz''"] f lifecycle_eq
  show ?thesis
    by (simp add: inCancelled_def inCompleted_def)
qed

section \<open>Queueing without credits (C3)\<close>

text \<open>C3. A queue request made while \<open>credits \<le> 0\<close> is answered with status 403 and leaves
  the whole state unchanged: no job ID is issued, no timer is set and no job is added to
  \<open>jobQueue\<close>.\<close>

theorem queue_without_credits:
  "credits s \<le> 0 \<Longrightarrow>
     QUEUE_IMAGE_GENERATION s query rendering =
       ((403, Text ''Not enough credits required to generate images.''), s)"
  by (simp add: QUEUE_IMAGE_GENERATION_def)

text \<open>After ten completed jobs the balance is 0 and the next request is refused.\<close>

theorem queue_without_credits_witness:
  "credits (run initialState tenJobs) \<le> 0 \<and>
   QUEUE_IMAGE_GENERATION (run initialState tenJobs) (Some ''cat'') ''0.k'' =
     ((403, Text ''Not enough credits required to generate images.''), run initialState tenJobs)"
  using queue_without_credits [of "run initialState tenJobs" "Some ''cat''" "''0.k''"]
  by (simp add: credits_tenJobs)

section \<open>Queueing without a prompt (C4)\<close>

text \<open>C4, as amended. A queue request whose prompt is missing or empty never issues a job ID
  and never changes the state; it is answered with status 400 when \<open>credits > 0\<close> and with
  status 403 when \<open>credits \<le> 0\<close>, because the balance is checked first.\<close>

theorem queue_missing_prompt:
  "truthy query = None \<Longrightarrow>
     QUEUE_IMAGE_GENERATION s query rendering =
       (if credits s \<le> 0 then ((403, Text ''Not enough credits required to generate images.''), s)
        else ((400, Text ''Missing prompt parameter.''), s))"
  by (simp add: QUEUE_IMAGE_GENERATION_def)

text \<open>The claim as stated fails where the balance is 0: the request without a prompt gets 403.\<close>

theorem queue_missing_prompt_counterexample:
  "truthy None = None \<and>
   fst (QUEUE_IMAGE_GENERATION (run initialState tenJobs) None ''0.k'') =
     (403, Text ''Not enough credits required to generate images.'')"
  by (simp add: QUEUE_IMAGE_GENERATION_def credits_tenJobs)

text \<open>A missing and an empty prompt at the initial balance.\<close>

theorem queue_missing_prompt_witness:
  "truthy None = None \<and> truthy (Some []) = None \<and>
   QUEUE_IMAGE_GENERATION initialState None ''0.a'' = ((400, Text ''Missing prompt parameter.''), initialState) \<and>
   QUEUE_IMAGE_GENERATION initialState (Some []) ''0.a'' = ((400, Text ''Missing prompt parameter.''), initialState)"
  using queue_missing_prompt [of None initialState "''0.a''"]
    queue_missing_prompt [of "Some []" initialState "''0.a''"]
  by (simp add: initialState_def)

section \<open>Job status (C5)\<close>

text \<open>For a job ID that is not the name of a member of \<open>Object.prototype\<close>, the response follows
  the membership in the three collections.\<close>

lemma JOB_STATUS_by_membership:
  assumes "jid \<noteq> []" and "jid \<notin> set objectPrototypeNames"
  shows "fst (JOB_STATUS s (Some jid)) =
     (case completedJobs s jid of
        Some images \<Rightarrow> (200, StatusCompleted (Stored images) (credits s))
      | None \<Rightarrow>
          if inPending s jid then (200, StatusProcessing)
          else if inCancelled s jid then (200, StatusCancelled)
          else (404, Text ''Job not found.''))"
  using assms
  by (simp add: JOB_STATUS_def getProperty_def inPending_def inCancelled_def split: option.split)

text \<open>C5 fails on the code. The ID \<open>constructor\<close> was never issued and is in none of the three
  collections of the initial state, yet the status request for it is answered with status 200
  and \<open>completed\<close>: the read \<open>completedJobs[jobId]\<close> finds the member inherited from
  \<open>Object.prototype\<close>.\<close>

theorem JOB_STATUS_prototype_name:
  "\<not> inCompleted initialState ''constructor'' \<and> \<not> inPending initialState ''constructor'' \<and>
   \<not> inCancelled initialState ''constructor'' \<and>
   JOB_STATUS initialState (Some ''constructor'') =
     ((200, StatusCompleted (PrototypeMember ''constructor'') 10), initialState)"
  by (simp add: JOB_STATUS_def getProperty_def objectPrototypeNames_def inCompleted_def
      inPending_def inCancelled_def initialState_def)

section \<open>Cancelling (C6)\<close>

text \<open>C6, as amended. For a cancel request with a non-empty job ID: if an entry of \<open>jobQueue\<close>
  has the ID, the first such entry is removed, its timer is cleared, the ID is appended to
  \<open>cancelledJobs\<close>, the answer is the success text with status 200, and \<open>credits\<close> and
  \<open>completedJobs\<close> are unchanged; when the pending IDs are distinct the ID is then no longer
  pending and a second cancel of it is answered with 404. If no entry has the ID, the answer is
  404 and the state is unchanged.\<close>

theorem CANCEL_JOB_outcomes:
  assumes "jid \<noteq> []"
  shows "(let r = CANCEL_JOB s (Some jid); s' = snd r
          in (inPending s jid \<longrightarrow>
                (\<exists>index. findIndex (\<lambda>j. jobId j = jid) (jobQueue s) = Some index \<and>
                   r = ((200, Text ''Job successfully cancelled.''),
                        s\<lparr> cancelledJobs := cancelledJobs s @ [jid],
                           jobQueue := splice1 index (jobQueue s),
                           timers := filter (\<lambda>t. handle t \<noteq> timeoutId (jobQueue s ! index))
                                       (timers s) \<rparr>) \<and>
                   \<not> some (\<lambda>t. handle t = timeoutId (jobQueue s ! index)) (timers s')) \<and>
                inCancelled s' jid \<and>
                length (jobQueue s') + 1 = length (jobQueue s) \<and>
                credits s' = credits s \<and> completedJobs s' = completedJobs s \<and>
                (distinct (map jobId (jobQueue s)) \<longrightarrow>
                   \<not> inPending s' jid \<and>
                   CANCEL_JOB s' (Some jid) = ((404, Text ''Job not found.''), s'))) \<and>
             (\<not> inPending s jid \<longrightarrow> r = ((404, Text ''Job not found.''), s)))"
proof -
  let ?r = "CANCEL_JOB s (Some jid)"
  let ?s' = "snd ?r"
  have found: "(\<exists>index. findIndex (\<lambda>j. jobId j = jid) (jobQueue s) = Some index \<and>
                   ?r = ((200, Text ''Job successfully cancelled.''),
                        s\<lparr> cancelledJobs := cancelledJobs s @ [jid],
                           jobQueue := splice1 index (jobQueue s),
                           timers := filter (\<lambda>t. handle t \<noteq> timeoutId (jobQueue s ! index))
                                       (timers s) \<rparr>) \<and>
                   \<not> some (\<lambda>t. handle t = timeoutId (jobQueue s ! index)) (timers ?s')) \<and>
                inCancelled ?s' jid \<and>
                length (jobQueue ?s') + 1 = length (jobQueue s) \<and>
                credits ?s' = credits s \<and> completedJobs ?s' = completedJobs s \<and>
                (distinct (map jobId (jobQueue s)) \<longrightarrow>
                   \<not> inPending ?s' jid \<and>
                   CANCEL_JOB ?s' (Some jid) = ((404, Text ''Job not found.''), ?s'))"
    if pending: "inPending s jid"
  proof -
    from pending obtain index where index: "findIndex (\<lambda>j. jobId j = jid) (jobQueue s) = Some index"
      unfolding inPending_def by (blast dest: some_findIndex)
    note r = CANCEL_JOB_found [OF assms index]
    from findIndex_Some [OF index] have lt: "index < length (jobQueue s)" by simp
    have cleared: "\<not> some (\<lambda>t. handle t = timeoutId (jobQueue s ! index)) (timers ?s')"
      by (simp add: r some_iff)
    have cancelled: "inCancelled ?s' jid"
      by (simp add: r inCancelled_def some_iff)
    have len: "length (jobQueue ?s') + 1 = length (jobQueue s)"
      using lt by (simp add: r length_splice1)
    have same: "credits ?s' = credits s" "completedJobs ?s' = completedJobs s"
      by (simp_all add: r)
    have twice: "\<not> inPending ?s' jid \<and> CANCEL_JOB ?s' (Some jid) = ((404, Text ''Job not found.''), ?s')"
      if d: "distinct (map jobId (jobQueue s))"
    proof -
      from splice1_removes [OF d index] have gone: "\<not> inPending ?s' jid"
        by (simp add: r inPending_def)
      with CANCEL_JOB_not_found [OF assms gone] show ?thesis by simp
    qed
    from index r cleared cancelled len same twice show ?thesis by blast
  qed
  from found CANCEL_JOB_not_found [OF assms] show ?thesis
    unfolding Let_def by blast
qed

text \<open>The claim as stated fails for the empty and the missing job ID: such a request names no
  pending job and is answered with status 400, not 404.\<close>

theorem CANCEL_JOB_empty_id_counterexample:
  "\<not> inPending initialState [] \<and>
   CANCEL_JOB initialState (Some []) = ((400, Text ''Missing jobId parameter.''), initialState) \<and>
   CANCEL_JOB initialState None = ((400, Text ''Missing jobId parameter.''), initialState)"
  by (simp add: CANCEL_JOB_def inPending_def initialState_def)

text \<open>Cancelling a queued job, cancelling it again, and cancelling an unknown ID.\<close>

theorem CANCEL_JOB_outcomes_witness:
  "''xyz'' \<noteq> [] \<and> inPending queued ''xyz'' \<and>
   fst (CANCEL_JOB queued (Some ''xyz'')) = (200, Text ''Job successfully cancelled.'') \<and>
   inCancelled (snd (CANCEL_JOB queued (Some ''xyz''))) ''xyz'' \<and>
   \<not> inPending (snd (CANCEL_JOB queued (Some ''xyz''))) ''xyz'' \<and>
   timers (snd (CANCEL_JOB queued (Some ''xyz''))) = [] \<and>
   credits (snd (CANCEL_JOB queued (Some ''xyz''))) = 10 \<and>
   fst (CANCEL_JOB (snd (CANCEL_JOB queued (Some ''xyz''))) (Some ''xyz'')) = (404, Text ''Job not found.'') \<and>
   \<not> inPending queued ''abc'' \<and>
   CANCEL_JOB queued (Some ''abc'') = ((404, Text ''Job not found.''), queued)"
proof -
  have n: "''xyz'' \<noteq> []" "''abc'' \<noteq> []" by simp_all
  have p: "inPending queued ''xyz''" "\<not> inPending queued ''abc''"
    and d: "distinct (map jobId (jobQueue queued))"
    and i: "findIndex (\<lambda>j. jobId j = ''xyz'') (jobQueue queued) = Some 0"
    and c: "credits queued = 10"
    by (simp_all add: queued_eq inPending_def)
  from CANCEL_JOB_outcomes [OF n(1), of queued] p(1) d i c
  have a: "fst (CANCEL_JOB queued (Some ''xyz'')) = (200, Text ''Job successfully cancelled.'')"
    "inCancelled (snd (CANCEL_JOB queued (Some ''xyz''))) ''xyz''"
    "\<not> inPending (snd (CANCEL_JOB queued (Some ''xyz''))) ''xyz''"
    "timers (snd (CANCEL_JOB queued (Some ''xyz''))) = []"
    "credits (snd (CANCEL_JOB queued (Some ''xyz''))) = 10"
    "fst (CANCEL_JOB (snd (CANCEL_JOB queued (Some ''xyz''))) (Some ''xyz'')) = (404, Text ''Job not found.'')"
    unfolding Let_def by (auto simp: queued_eq)
  from CANCEL_JOB_outcomes [OF n(2), of queued] p(2)
  have b: "CANCEL_JOB queued (Some ''abc'') = ((404, Text ''Job not found.''), queued)"
    unfolding Let_def by blast
  from n p a b show ?thesis by simp
qed

section \<open>The balance (C7)\<close>

lemma budget_step:
  assumes inv: "outstanding s \<le> credits s" and ok: "affordable s ev"
  shows "outstanding (step s ev) \<le> credits (step s ev)"
proof (cases ev)
  case GetCredits
  with inv show ?thesis by (simp add: CREDITS_def)
next
  case PostPurchaseCredits
  with inv show ?thesis
    by (simp add: PURCHASE_CREDITS_def Let_def CREDITS_IN_BUNDLE_def outstanding_def)
next
  case (GetQueueImageGeneration query rendering)
  show ?thesis
  proof (cases "accepts s query")
    case False
    with QUEUE_cases [of s query rendering] inv GetQueueImageGeneration show ?thesis
      by auto
  next
    case True
    with ok GetQueueImageGeneration have "outstanding s < credits s" by simp
    with QUEUE_cases [of s query rendering] True GetQueueImageGeneration show ?thesis
      by (auto simp: outstanding_def)
  qed
next
  case (GetJobStatus query)
  have "snd (JOB_STATUS s query) = s"
    by (simp add: JOB_STATUS_def split: option.split property.split)
  with inv GetJobStatus show ?thesis by simp
next
  case (PostCancelJob query)
  have "length (filter P (timers s)) \<le> length (timers s)" for P by simp
  with CANCEL_JOB_cases [of s query] inv PostCancelJob show ?thesis
    by (auto simp: outstanding_def intro: order_trans [rotated])
next
  case (TimerFires h)
  show ?thesis
  proof (cases "findIndex (\<lambda>t. handle t = h) (timers s)")
    case None
    with inv TimerFires show ?thesis by (simp add: fire_def)
  next
    case (Some i)
    from findIndex_Some [OF Some] have "i < length (timers s)" by simp
    from length_splice1 [OF this] inv Some TimerFires show ?thesis
      by (simp add: fire_def outstanding_def)
  qed
next
  case (PromisesSettle h e1 e2 e3 e4)
  show ?thesis
  proof (cases "findIndex (\<lambda>t. handle t = h) (running s)")
    case None
    with inv PromisesSettle show ?thesis by (simp add: settle_def)
  next
    case (Some i)
    let ?s1 = "s\<lparr> running := splice1 i (running s) \<rparr>"
    from findIndex_Some [OF Some] have "i < length (running s)" by simp
    from length_splice1 [OF this] inv have less: "outstanding ?s1 < credits ?s1"
      by (simp add: outstanding_def)
    from timeoutCallback_cases [of e1 e2 e3 e4 "forJob (running s ! i)" "forPrompt (running s ! i)" ?s1] less
    have "outstanding (timeoutCallback e1 e2 e3 e4 (forJob (running s ! i)) (forPrompt (running s ! i)) ?s1)
          \<le> credits (timeoutCallback e1 e2 e3 e4 (forJob (running s ! i)) (forPrompt (running s ! i)) ?s1)"
      by (auto simp: outstanding_def)
    with Some PromisesSettle show ?thesis by (simp add: settle_def)
  qed
qed

lemma budget_run:
  "outstanding s \<le> credits s \<Longrightarrow> withinBudget s evs \<Longrightarrow> outstanding (run s evs) \<le> credits (run s evs)"
proof (induction evs arbitrary: s)
  case Nil
  then show ?case by (simp add: run_def)
next
  case (Cons ev evs)
  from Cons.prems have "outstanding (step s ev) \<le> credits (step s ev)" "withinBudget (step s ev) evs"
    by (simp_all add: budget_step)
  from Cons.IH [OF this] show ?case by (simp add: run_def)
qed

text \<open>C7, as amended. In every state reached from the initial state by a sequence in which each
  queue request that is accepted is made while the balance exceeds the number of callbacks still
  scheduled or running, the balance is at least that number and hence not negative. Requests
  that the handler refuses are not restricted.\<close>

theorem balance_not_negative:
  "withinBudget initialState evs \<Longrightarrow>
     0 \<le> credits (run initialState evs) \<and>
     outstanding (run initialState evs) \<le> credits (run initialState evs)"
proof -
  assume w: "withinBudget initialState evs"
  have "outstanding initialState \<le> credits initialState"
    by (simp add: outstanding_def initialState_def)
  from budget_run [OF this w] show ?thesis
    by (simp add: outstanding_def)
qed

text \<open>The claim as stated fails: eleven jobs are queued at balance 10, which the check
  \<open>credits \<le> 0\<close> allows, and all of them complete.\<close>

theorem balance_not_negative_counterexample:
  "credits (run initialState elevenJobs) = - 1 \<and> credits (run initialState elevenJobs) < 0"
  by (simp add: elevenJobs_def run_simps)

text \<open>Ten jobs queued at balance 10 and completed, followed by a request that is refused at
  balance 0, stay within the budget.\<close>

theorem balance_not_negative_witness:
  "withinBudget initialState tenJobsThenRefused \<and>
   0 \<le> credits (run initialState tenJobsThenRefused) \<and>
   credits (run initialState tenJobsThenRefused) = 0 \<and>
   outstanding (run initialState tenJobsThenRefused) = 0"
proof -
  have w: "withinBudget initialState tenJobsThenRefused"
    by (simp add: tenJobsThenRefused_def tenJobs_def outstanding_def accepts_def run_simps)
  have c: "credits (run initialState tenJobsThenRefused) = 0"
    and o: "outstanding (run initialState tenJobsThenRefused) = 0"
    by (simp_all add: tenJobsThenRefused_def tenJobs_def outstanding_def run_simps)
  from balance_not_negative [OF w] w c o show ?thesis by simp
qed

section \<open>Purchasing (C8)\<close>

text \<open>C8. A purchase adds exactly 10 to \<open>credits\<close>, changes nothing else and returns the new
  balance with status 200; after \<open>n\<close> purchases from the initial state the balance is
  \<open>10 + 10 * n\<close>.\<close>

theorem purchase_adds_bundle:
  "PURCHASE_CREDITS s = ((200, CreditsBody (credits s + 10)), s\<lparr> credits := credits s + 10 \<rparr>) \<and>
   credits (run initialState (replicate n PostPurchaseCredits)) = 10 + 10 * int n"
proof -
  have one: "PURCHASE_CREDITS s = ((200, CreditsBody (credits s + 10)), s\<lparr> credits := credits s + 10 \<rparr>)" for s
    by (simp add: PURCHASE_CREDITS_def CREDITS_IN_BUNDLE_def Let_def)
  have many: "credits (run s (replicate n PostPurchaseCredits)) = credits s + 10 * int n" for s
    by (induction n arbitrary: s) (simp_all add: run_def one)
  show ?thesis using one many [of initialState] by (simp add: initialState_def)
qed

section \<open>The generation adapter (C9)\<close>





section \<open>Job status is read-only (C10)\<close>

text \<open>C10. In every branch the status handler returns the state it was given: the balance, the
  three collections and the timers are unchanged.\<close>

theorem JOB_STATUS_read_only: "snd (JOB_STATUS s query) = s"
  by (simp add: JOB_STATUS_def split: option.split property.split)

end
